theory Spec2Isabelle
  imports Main "HOL-Library.Word"
begin

section \<open>The HTTP debug proxy: body capture and restore, diagnostic dumps\<close>

text \<open>
  The program (\<^verbatim>\<open>main.go\<close>) is a reverse proxy that logs every request and response.
  Its core is \<^verbatim>\<open>readAndMaybeDecompressBody\<close>, which reads a body stream to its end,
  decodes it for the log when it is declared as gzip, and hands back a factory of fresh
  streams over the bytes read; \<^verbatim>\<open>dumpHTTPRequest\<close> and \<^verbatim>\<open>dumpHTTPResponse\<close> log a
  message and put such a fresh stream in the place of the body they have consumed.

  The three functions are embedded below as they are written. What they call in Go's
  standard library is modelled at the level of its documentation:
  \<^item> a stream (\<^verbatim>\<open>io.ReadCloser\<close>) is an object in a store, addressed by a number; a
    message holds the address of its body, or nil;
  \<^item> \<^verbatim>\<open>io.ReadAll\<close> is the loop that calls \<^verbatim>\<open>Read\<close> until an error or end of file;
  \<^item> \<^verbatim>\<open>gzip.NewReader\<close>, \<^verbatim>\<open>httputil.DumpRequestOut\<close> and \<^verbatim>\<open>httputil.DumpResponse\<close>
    are parameters: every theorem holds for whatever they compute.
\<close>

subsection \<open>Bytes, errors, outcomes\<close>

type_synonym byte = "8 word"
type_synonym bytes = "byte list"

text \<open>A Go \<^verbatim>\<open>error\<close> value that is not nil: \<^verbatim>\<open>io.EOF\<close>, or any other error, by its message.\<close>

datatype go_error = EOF | Err string

text \<open>
  What a call does: it returns a value, it panics (a nil dereference), or it never
  returns because a \<^verbatim>\<open>Read\<close> blocks for ever.
\<close>

datatype 'a outcome = Returns 'a | Panics | Blocks

text \<open>Sequencing: the rest of a function body runs when the call before it has returned.\<close>

definition and_then :: "'a outcome \<Rightarrow> ('a \<Rightarrow> 'b outcome) \<Rightarrow> 'b outcome" where
  "and_then m f = (case m of Returns x \<Rightarrow> f x | Panics \<Rightarrow> Panics | Blocks \<Rightarrow> Blocks)"

definition returning :: "'a option \<Rightarrow> 'a outcome" where
  "returning m = (case m of Some x \<Rightarrow> Returns x | None \<Rightarrow> Blocks)"

subsection \<open>Readers\<close>

text \<open>
  How a stream given from outside ends once its pending chunks are read: with an error
  (\<^verbatim>\<open>io.EOF\<close> at a regular end), or never (the peer sends nothing more and keeps the
  connection open).
\<close>

datatype ending = Ends go_error | Stalls

text \<open>\<^verbatim>\<open>bytes.Reader\<close>: the slice \<open>s\<close> it reads from and the read offset \<open>i\<close>.\<close>

datatype bytes_Reader = BytesReader bytes nat

text \<open>
  The streams of the program. \<open>Incoming chunks e\<close> is a stream the program receives (a
  body on a connection, or an open \<^verbatim>\<open>gzip.Reader\<close>), described by what it will deliver:
  one chunk for each call of \<^verbatim>\<open>Read\<close>, then \<open>e\<close>. (A call that returns data together with an
  error is, to \<^verbatim>\<open>io.ReadAll\<close>, a chunk followed by that error.) \<open>NopCloser r\<close> is
  \<^verbatim>\<open>io.NopCloser(r)\<close> over a \<^verbatim>\<open>bytes.Reader\<close>, the stream the program builds itself.
\<close>

datatype reader = Incoming "bytes list" ending | NopCloser bytes_Reader

definition bytes_NewReader :: "bytes \<Rightarrow> bytes_Reader" where
  "bytes_NewReader b = BytesReader b 0"

text \<open>
  \<^verbatim>\<open>Read\<close>: the bytes stored in the caller's buffer, the error (\<open>None\<close> is nil) and the
  reader afterwards; \<open>None\<close> when the call never returns. The length of the caller's
  buffer is not modelled: the buffer has room for what the reader has ready, so a
  \<^verbatim>\<open>bytes.Reader\<close> copies all of \<^verbatim>\<open>s[i:]\<close> in one call
  (\<^verbatim>\<open>if r.i >= len(r.s) { return 0, io.EOF }; n = copy(b, r.s[r.i:]); r.i += n\<close>).
\<close>

fun bytes_Reader_Read :: "bytes_Reader \<Rightarrow> (bytes \<times> go_error option) \<times> bytes_Reader" where
  "bytes_Reader_Read (BytesReader s i) =
     (if length s \<le> i then (([], Some EOF), BytesReader s i)
      else ((drop i s, None), BytesReader s (i + length (drop i s))))"

fun Read :: "reader \<Rightarrow> ((bytes \<times> go_error option) \<times> reader) option" where
  "Read (Incoming (c # cs) e) = Some ((c, None), Incoming cs e)"
| "Read (Incoming [] (Ends err)) = Some (([], Some err), Incoming [] (Ends err))"
| "Read (Incoming [] Stalls) = None"
| "Read (NopCloser r) = (case bytes_Reader_Read r of (res, r') \<Rightarrow> Some (res, NopCloser r'))"

text \<open>
  \<^verbatim>\<open>Close\<close>: a stream received from outside is closed, and a later \<^verbatim>\<open>Read\<close> of it fails;
  closing a \<^verbatim>\<open>NopCloser\<close> does nothing.
\<close>

fun Close :: "reader \<Rightarrow> reader" where
  "Close (Incoming cs e) = Incoming [] (Ends (Err ''read on closed body''))"
| "Close (NopCloser r) = NopCloser r"

text \<open>The number of calls of \<^verbatim>\<open>Read\<close> that can still deliver data without an error.\<close>

fun pending :: "reader \<Rightarrow> nat" where
  "pending (Incoming cs e) = length cs"
| "pending (NopCloser (BytesReader s i)) = (if i < length s then 1 else 0)"

lemma Read_pending:
  "Read r = Some ((d, None), r') \<Longrightarrow> pending r' < pending r"
proof (cases r)
  case (Incoming cs e)
  assume "Read r = Some ((d, None), r')"
  with Incoming show ?thesis
    by (cases cs; cases e) auto
next
  case (NopCloser br)
  assume "Read r = Some ((d, None), r')"
  with NopCloser show ?thesis
    by (cases br) (auto split: if_splits)
qed

text \<open>
  The loop of \<^verbatim>\<open>io.ReadAll\<close>, with the buffer \<open>b\<close> read so far:
  \<^verbatim>\<open>for { n, err := r.Read(...); b = b[:len(b)+n];
        if err != nil { if err == EOF { err = nil }; return b, err } }\<close>.
  The data of a failing read is kept, and end of file is not an error. The result is the
  data, the error and the reader as the loop leaves it; \<open>None\<close> when a read blocks.
\<close>

function ReadAll_loop :: "reader \<Rightarrow> bytes \<Rightarrow> (bytes \<times> go_error option \<times> reader) option" where
  "ReadAll_loop r b =
     (case Read r of
        None \<Rightarrow> None
      | Some ((d, Some err), r') \<Rightarrow> Some (b @ d, (if err = EOF then None else Some err), r')
      | Some ((d, None), r') \<Rightarrow> ReadAll_loop r' (b @ d))"
  by pat_completeness auto
termination
  by (relation "measure (\<lambda>(r, b). pending r)") (auto dest: Read_pending)

definition ReadAll :: "reader \<Rightarrow> (bytes \<times> go_error option \<times> reader) option" where
  "ReadAll r = ReadAll_loop r []"

subsection \<open>The store, the log, messages\<close>

text \<open>
  An argument of \<^verbatim>\<open>log.Printf\<close> and a line of the log: the format string of the call and
  its argument, not rendered.
\<close>

datatype log_arg = ArgBytes bytes | ArgErr go_error

datatype log_entry = Printf string log_arg

text \<open>
  The state outside the function's locals: the streams by address (the addresses below
  \<open>allocated\<close> are in use, and \<open>allocated\<close> is the next free one), the process log, and a
  counter of the calls of \<^verbatim>\<open>gzip.NewReader\<close>, which is kept only to state that no decoding
  was attempted.
\<close>

record world =
  heap :: "nat \<Rightarrow> reader"
  allocated :: nat
  logged :: "log_entry list"
  gzip_opens :: nat

definition new_stream :: "reader \<Rightarrow> world \<Rightarrow> nat \<times> world" where
  "new_stream r w = (allocated w, w\<lparr>heap := (heap w)(allocated w := r), allocated := Suc (allocated w)\<rparr>)"

definition log_Printf :: "string \<Rightarrow> log_arg \<Rightarrow> world \<Rightarrow> world" where
  "log_Printf fmt a w = w\<lparr>logged := logged w @ [Printf fmt a]\<rparr>"

text \<open>
  \<^verbatim>\<open>io.ReadAll(body)\<close> on a stream of the store, which is left where the loop stopped.
  With a nil \<open>body\<close> the first \<^verbatim>\<open>r.Read\<close> is a method call on a nil interface: a panic.
\<close>

definition io_ReadAll :: "nat option \<Rightarrow> world \<Rightarrow> ((bytes \<times> go_error option) \<times> world) outcome" where
  "io_ReadAll body w =
     (case body of
        None \<Rightarrow> Panics
      | Some a \<Rightarrow>
          and_then (returning (ReadAll (heap w a)))
            (\<lambda>(b, err, r'). Returns ((b, err), w\<lparr>heap := (heap w)(a := r')\<rparr>)))"

definition body_Close :: "nat option \<Rightarrow> world \<Rightarrow> world outcome" where
  "body_Close body w =
     (case body of
        None \<Rightarrow> Panics
      | Some a \<Rightarrow> Returns (w\<lparr>heap := (heap w)(a := Close (heap w a))\<rparr>))"

text \<open>
  \<^verbatim>\<open>http.Header\<close> is \<^verbatim>\<open>map[string][]string\<close>; \<^verbatim>\<open>Get\<close> returns the first value of the key,
  or the empty string. The program asks for \<^verbatim>\<open>"Content-Encoding"\<close>, which is its own
  canonical form, so the canonicalisation of the key is left out.
\<close>

type_synonym header = "string \<Rightarrow> string list option"

definition Header_Get :: "header \<Rightarrow> string \<Rightarrow> string" where
  "Header_Get h key = (case h key of None \<Rightarrow> [] | Some [] \<Rightarrow> [] | Some (v # vs) \<Rightarrow> v)"

text \<open>
  The fields of \<^verbatim>\<open>http.Request\<close> and \<^verbatim>\<open>http.Response\<close> the program touches, and some it
  does not. \<open>Body\<close> is the address of the body stream, \<open>None\<close> for a nil body.
\<close>

record message =
  Header :: header
  Body :: "nat option"
  ContentLength :: int

record request = message +
  Method :: string
  URL :: string

record response = message +
  StatusCode :: int

subsection \<open>gzip\<close>

text \<open>
  An open \<^verbatim>\<open>gzip.Reader\<close> over a byte slice in memory: the decompressed chunks it
  delivers, and the error after them, \<^verbatim>\<open>io.EOF\<close> when the data is a complete gzip stream
  and the error of the decompression otherwise. \<^verbatim>\<open>gzip.NewReader(bytes.NewReader(b))\<close> is
  a parameter \<open>gz\<close> of this type: it fails when \<open>b\<close> has no valid gzip header.
\<close>

datatype gzip_Reader = GzipReader (out: "bytes list") (fin: go_error)

type_synonym gzip_lib = "bytes \<Rightarrow> go_error + gzip_Reader"

definition gzip_stream :: "gzip_Reader \<Rightarrow> reader" where
  "gzip_stream g = Incoming (out g) (Ends (fin g))"

subsection \<open>readAndMaybeDecompressBody\<close>

text \<open>
  The four results of the function, each of which can be nil: the raw body, the decoded
  body, the restore closure and the error. The closure
  \<^verbatim>\<open>func() io.ReadCloser { return io.NopCloser(bytes.NewReader(rawBody)) }\<close> allocates a
  stream at each call.
\<close>

type_synonym restore_fn = "world \<Rightarrow> nat \<times> world"

type_synonym capture = "bytes option \<times> bytes option \<times> restore_fn option \<times> go_error option"

definition restore_closure :: "bytes \<Rightarrow> restore_fn" where
  "restore_closure rawBody = new_stream (NopCloser (bytes_NewReader rawBody))"

text \<open>
  The function. The \<^verbatim>\<open>gzip.Reader\<close> and the \<^verbatim>\<open>bytes.Reader\<close> under it are locals that
  no one else sees, so they are not put in the store and \<^verbatim>\<open>gz.Close()\<close> has nothing to
  change; opening one is counted.
  \<^verbatim>\<open>io.ReadAll\<close> returns the slice it has made, which is never nil, so on success neither
  \<open>rawBody\<close> nor \<open>decoded\<close> is nil.
\<close>

definition gzip_NewReader ::
  "gzip_lib \<Rightarrow> bytes \<Rightarrow> world \<Rightarrow> (go_error + gzip_Reader) \<times> world" where
  "gzip_NewReader gz b w = (gz b, w\<lparr>gzip_opens := Suc (gzip_opens w)\<rparr>)"

definition readAndMaybeDecompressBody ::
  "gzip_lib \<Rightarrow> nat option \<Rightarrow> string \<Rightarrow> world \<Rightarrow> (capture \<times> world) outcome" where
  "readAndMaybeDecompressBody gz body encoding w =
     and_then (io_ReadAll body w) (\<lambda>((rawBody, err), w1).
     and_then (body_Close body w1) (\<lambda>w2.
       case err of
         Some e \<Rightarrow> Returns ((None, None, None, Some e), w2)
       | None \<Rightarrow>
           and_then
             (if encoding = ''gzip'' then
                (case gzip_NewReader gz rawBody w2 of
                   (Inl err, w3) \<Rightarrow> Returns (rawBody, w3)
                 | (Inr g, w3) \<Rightarrow>
                     and_then (returning (ReadAll (gzip_stream g))) (\<lambda>(decoded, err, g').
                       case err of
                         Some e \<Rightarrow> Returns (rawBody, w3)
                       | None \<Rightarrow> Returns (decoded, w3)))
              else Returns (rawBody, w2))
             (\<lambda>(decoded, w4).
                Returns ((Some rawBody, Some decoded, Some (restore_closure rawBody), None), w4))))"

subsection \<open>The dumps\<close>

text \<open>
  \<^verbatim>\<open>httputil.DumpResponse(resp, false)\<close> and \<^verbatim>\<open>httputil.DumpRequestOut(req, false)\<close> are the
  parameters \<open>DumpResponse\<close> and \<open>DumpRequestOut\<close>: the rendered header block, or an
  error. Called without the body, they leave the message and its body stream as they
  found them. They are taken over the messages the proxy hands to the dumps, on which
  they return; a message on which the library itself would panic (a request with a nil
  \<^verbatim>\<open>URL\<close>) does not reach the dumps.

  The message is passed by pointer in the source; the functions below return it as the
  call leaves it. A function value that is nil panics when called.
\<close>

definition dumpHTTPResponse ::
  "(response \<Rightarrow> go_error + bytes) \<Rightarrow> gzip_lib \<Rightarrow> response \<Rightarrow> world \<Rightarrow> (response \<times> world) outcome" where
  "dumpHTTPResponse DumpResponse gz resp w =
     (let w1 = (case DumpResponse resp of
                  Inl err \<Rightarrow> log_Printf ''Error dumping response headers: %v'' (ArgErr err) w
                | Inr headerDump \<Rightarrow>
                    log_Printf ''----- RESPONSE HEADERS-----\<newline>%s'' (ArgBytes headerDump) w)
      in and_then
           (readAndMaybeDecompressBody gz (Body resp) (Header_Get (Header resp) ''Content-Encoding'') w1)
           (\<lambda>((rawBody, decodedBody, restore, err), w2).
              case err of
                Some e \<Rightarrow> Returns (resp, log_Printf ''Error reading response body: %v'' (ArgErr e) w2)
              | None \<Rightarrow>
                  (let w3 = (case decodedBody of
                               Some d \<Rightarrow> log_Printf ''----- RESPONSE BODY -----\<newline>%s'' (ArgBytes d) w2
                             | None \<Rightarrow> w2)
                   in case restore of
                        None \<Rightarrow> Panics
                      | Some f \<Rightarrow> (case f w3 of (b, w4) \<Rightarrow> Returns (resp\<lparr>Body := Some b\<rparr>, w4)))))"

definition dumpHTTPRequest ::
  "(request \<Rightarrow> go_error + bytes) \<Rightarrow> gzip_lib \<Rightarrow> request \<Rightarrow> world \<Rightarrow> (request \<times> world) outcome" where
  "dumpHTTPRequest DumpRequestOut gz req w =
     (let w1 = (case DumpRequestOut req of
                  Inl err \<Rightarrow> log_Printf ''Error dumping request headers: %v'' (ArgErr err) w
                | Inr headerDump \<Rightarrow>
                    log_Printf ''----- REQUEST HEADERS-----\<newline>%s'' (ArgBytes headerDump) w)
      in if Body req = None then Returns (req, w1)
         else and_then
           (readAndMaybeDecompressBody gz (Body req) (Header_Get (Header req) ''Content-Encoding'') w1)
           (\<lambda>((rawBody, decodedBody, restore, err), w2).
              case err of
                Some e \<Rightarrow> Returns (req, log_Printf ''Error reading request body: %v'' (ArgErr e) w2)
              | None \<Rightarrow>
                  (let w3 = (case decodedBody of
                               Some d \<Rightarrow> log_Printf ''----- REQUEST BODY -----\<newline>%s'' (ArgBytes d) w2
                             | None \<Rightarrow> w2)
                   in case restore of
                        None \<Rightarrow> Panics
                      | Some f \<Rightarrow> (case f w3 of (b, w4) \<Rightarrow> Returns (req\<lparr>Body := Some b\<rparr>, w4)))))"

text \<open>
  The response hook of \<^verbatim>\<open>main\<close>:
  \<^verbatim>\<open>proxy.ModifyResponse = func(resp *http.Response) error { dumpHTTPResponse(resp); return nil }\<close>.
\<close>

definition ModifyResponse ::
  "(response \<Rightarrow> go_error + bytes) \<Rightarrow> gzip_lib \<Rightarrow> response \<Rightarrow> world
     \<Rightarrow> (go_error option \<times> response \<times> world) outcome" where
  "ModifyResponse DumpResponse gz resp w =
     and_then (dumpHTTPResponse DumpResponse gz resp w) (\<lambda>(resp', w'). Returns (None, resp', w'))"

subsection \<open>Example inputs\<close>

text \<open>
  Concrete inputs at which the theorems below are exercised. \<open>hi_gzip\<close> is the gzip
  stream of the two bytes \<^verbatim>\<open>hi\<close>; \<open>hi_gzip_bad_sum\<close> is the same stream with a wrong
  checksum in its trailer, which \<^verbatim>\<open>gzip.NewReader\<close> opens and whose read ends in
  \<^verbatim>\<open>gzip.ErrChecksum\<close>. \<open>gzip_example\<close> is \<^verbatim>\<open>gzip.NewReader\<close> on these two inputs, and
  rejects the header of anything else.
\<close>

definition hi_gzip :: bytes where
  "hi_gzip = [0x1F, 0x8B, 0x08, 0x00, 0x00, 0x00, 0x00, 0x00, 0x02, 0xFF, 0xCB, 0xC8, 0x04, 0x00,
              0xAC, 0x2A, 0x93, 0xD8, 0x02, 0x00, 0x00, 0x00]"

definition hi_gzip_bad_sum :: bytes where
  "hi_gzip_bad_sum = [0x1F, 0x8B, 0x08, 0x00, 0x00, 0x00, 0x00, 0x00, 0x02, 0xFF, 0xCB, 0xC8, 0x04, 0x00,
                      0x00, 0x2A, 0x93, 0xD8, 0x02, 0x00, 0x00, 0x00]"

definition gzip_example :: gzip_lib where
  "gzip_example b =
     (if b = hi_gzip then Inr (GzipReader [[0x68, 0x69]] EOF)
      else if b = hi_gzip_bad_sum then Inr (GzipReader [[0x68, 0x69]] (Err ''gzip: invalid checksum''))
      else Inl (Err ''gzip: invalid header''))"

text \<open>A store with one stream, at address 0, an empty log and no gzip reader opened yet.\<close>

definition world_with :: "reader \<Rightarrow> world" where
  "world_with r =
     \<lparr>heap = (\<lambda>a. if a = 0 then r else Incoming [] (Ends EOF)), allocated = 1, logged = [],
      gzip_opens = 0\<rparr>"

definition example_request :: "nat option \<Rightarrow> string \<Rightarrow> request" where
  "example_request body enc =
     \<lparr>Header = [''Content-Encoding'' \<mapsto> [enc]], Body = body, ContentLength = 22,
      Method = ''POST'', URL = ''/api''\<rparr>"

definition example_response :: "nat option \<Rightarrow> string \<Rightarrow> response" where
  "example_response body enc =
     \<lparr>Header = [''Content-Encoding'' \<mapsto> [enc]], Body = body, ContentLength = 22,
      StatusCode = 200\<rparr>"

section \<open>Properties\<close>

subsection \<open>Reading a stream to its end\<close>

declare ReadAll_loop.simps [simp del]

lemma ReadAll_loop_Incoming_Ends:
  "ReadAll_loop (Incoming cs (Ends e)) b =
     Some (b @ concat cs, (if e = EOF then None else Some e), Incoming [] (Ends e))"
proof (induction cs arbitrary: b)
  case Nil
  show ?case by (simp add: ReadAll_loop.simps)
next
  case (Cons c cs)
  have "ReadAll_loop (Incoming (c # cs) (Ends e)) b = ReadAll_loop (Incoming cs (Ends e)) (b @ c)"
    by (subst ReadAll_loop.simps) simp
  then show ?case by (simp add: Cons.IH)
qed

lemma ReadAll_loop_Incoming_Stalls:
  "ReadAll_loop (Incoming cs Stalls) b = None"
proof (induction cs arbitrary: b)
  case Nil
  show ?case by (simp add: ReadAll_loop.simps)
next
  case (Cons c cs)
  have "ReadAll_loop (Incoming (c # cs) Stalls) b = ReadAll_loop (Incoming cs Stalls) (b @ c)"
    by (subst ReadAll_loop.simps) simp
  then show ?case by (simp add: Cons.IH)
qed

lemma ReadAll_Incoming:
  "ReadAll (Incoming cs e) =
     (case e of
        Ends err \<Rightarrow> Some (concat cs, (if err = EOF then None else Some err), Incoming [] e)
      | Stalls \<Rightarrow> None)"
  by (cases e) (simp_all add: ReadAll_def ReadAll_loop_Incoming_Ends ReadAll_loop_Incoming_Stalls)

lemma ReadAll_loop_drained:
  "length s \<le> i \<Longrightarrow> ReadAll_loop (NopCloser (BytesReader s i)) b = Some (b, None, NopCloser (BytesReader s i))"
  by (subst ReadAll_loop.simps) simp

lemma ReadAll_NopCloser:
  "ReadAll (NopCloser (BytesReader s i)) =
     Some (drop i s, None, NopCloser (BytesReader s (max i (length s))))"
proof (cases "length s \<le> i")
  case True
  then show ?thesis by (simp add: ReadAll_def ReadAll_loop_drained max_def)
next
  case False
  then have "ReadAll_loop (NopCloser (BytesReader s i)) [] =
      ReadAll_loop (NopCloser (BytesReader s (length s))) (drop i s)"
    by (subst ReadAll_loop.simps) simp
  with False show ?thesis by (simp add: ReadAll_def ReadAll_loop_drained max_def)
qed

lemma ReadAll_restored:
  "ReadAll (NopCloser (bytes_NewReader B)) = Some (B, None, NopCloser (BytesReader B (length B)))"
  by (simp add: bytes_NewReader_def ReadAll_NopCloser)

lemma ReadAll_gzip_stream:
  "ReadAll (gzip_stream g) =
     Some (concat (out g), (if fin g = EOF then None else Some (fin g)), Incoming [] (Ends (fin g)))"
  by (simp add: gzip_stream_def ReadAll_Incoming)

lemma capture_read_ok:
  assumes "ReadAll (heap w a) = Some (B, None, r')"
  shows "readAndMaybeDecompressBody gz (Some a) E w =
           Returns ((Some B,
               Some (if E = ''gzip'' then
                       (case gz B of Inl e \<Rightarrow> B | Inr g \<Rightarrow> if fin g = EOF then concat (out g) else B)
                     else B),
               Some (restore_closure B), None),
             w\<lparr>heap := (heap w)(a := Close r'),
               gzip_opens := (if E = ''gzip'' then Suc (gzip_opens w) else gzip_opens w)\<rparr>)"
  using assms
  by (auto simp: readAndMaybeDecompressBody_def io_ReadAll_def body_Close_def and_then_def
      returning_def gzip_NewReader_def ReadAll_gzip_stream split: sum.splits)

lemma capture_read_fails:
  assumes "ReadAll (heap w a) = Some (B, Some e, r')"
  shows "readAndMaybeDecompressBody gz (Some a) E w =
           Returns ((None, None, None, Some e), w\<lparr>heap := (heap w)(a := Close r')\<rparr>)"
  using assms
  by (simp add: readAndMaybeDecompressBody_def io_ReadAll_def body_Close_def and_then_def
      returning_def)

lemma capture_read_blocks:
  assumes "ReadAll (heap w a) = None"
  shows "readAndMaybeDecompressBody gz (Some a) E w = Blocks"
  using assms
  by (simp add: readAndMaybeDecompressBody_def io_ReadAll_def and_then_def returning_def)

lemma capture_nil:
  "readAndMaybeDecompressBody gz None E w = Panics"
  by (simp add: readAndMaybeDecompressBody_def io_ReadAll_def and_then_def)

lemma restore_closure_eq:
  "restore_closure B w =
     (allocated w,
      w\<lparr>heap := (heap w)(allocated w := NopCloser (bytes_NewReader B)), allocated := Suc (allocated w)\<rparr>)"
  by (simp add: restore_closure_def new_stream_def)

lemma io_ReadAll_restored:
  assumes "heap w b = NopCloser (bytes_NewReader B)"
  shows "io_ReadAll (Some b) w =
           Returns ((B, None), w\<lparr>heap := (heap w)(b := NopCloser (BytesReader B (length B)))\<rparr>)"
  using assms by (simp add: io_ReadAll_def and_then_def returning_def ReadAll_restored)

subsection \<open>Capture, then restore\<close>

text \<open>
  C1. Round trip. When the body is a stream whose full read yields the bytes \<open>B\<close> without
  an error, \<^verbatim>\<open>readAndMaybeDecompressBody\<close> returns a restore closure, whatever the encoding
  declaration \<open>E\<close> is and whatever gzip makes of \<open>B\<close>; and in every state of the store, the
  stream the closure returns yields exactly \<open>B\<close> when read to its end.
\<close>

theorem capture_restore_roundtrip:
  assumes "ReadAll (heap w a) = Some (B, None, r')"
  shows "\<exists>raw decoded restore w1.
           readAndMaybeDecompressBody gz (Some a) E w =
             Returns ((raw, decoded, Some restore, None), w1) \<and>
           (\<forall>w2. case restore w2 of
                   (body, w3) \<Rightarrow> \<exists>w4. io_ReadAll (Some body) w3 = Returns ((B, None), w4))"
proof -
  have "case restore_closure B w2 of
          (body, w3) \<Rightarrow> \<exists>w4. io_ReadAll (Some body) w3 = Returns ((B, None), w4)" for w2
    by (simp add: restore_closure_eq io_ReadAll_restored)
  with capture_read_ok [OF assms, of gz E] show ?thesis by blast
qed

theorem capture_restore_roundtrip_witness:
  "ReadAll (heap (world_with (Incoming [take 10 hi_gzip, drop 10 hi_gzip] (Ends EOF))) 0) =
     Some (hi_gzip, None, Incoming [] (Ends EOF)) \<and>
   (\<exists>raw decoded restore w1.
      readAndMaybeDecompressBody gzip_example (Some 0) ''gzip''
          (world_with (Incoming [take 10 hi_gzip, drop 10 hi_gzip] (Ends EOF))) =
        Returns ((raw, decoded, Some restore, None), w1) \<and>
      (\<forall>w2. case restore w2 of
              (body, w3) \<Rightarrow> \<exists>w4. io_ReadAll (Some body) w3 = Returns ((hi_gzip, None), w4)))"
proof -
  have h: "ReadAll (heap (world_with (Incoming [take 10 hi_gzip, drop 10 hi_gzip] (Ends EOF))) 0) =
      Some (hi_gzip, None, Incoming [] (Ends EOF))"
    by (simp add: world_with_def ReadAll_Incoming)
  from h capture_restore_roundtrip [OF h, of gzip_example "''gzip''"] show ?thesis
    by (rule conjI)
qed

lemma capture_restore_is_closure:
  assumes "readAndMaybeDecompressBody gz body E w = Returns ((Some B, decoded, Some restore, err), w1)"
  shows "restore = restore_closure B"
proof (cases body)
  case None
  with assms show ?thesis by (simp add: capture_nil)
next
  case (Some a)
  show ?thesis
  proof (cases "ReadAll (heap w a)")
    case None
    with assms Some show ?thesis by (simp add: capture_read_blocks)
  next
    case (Some res)
    obtain B' e r' where res: "res = (B', e, r')" by (cases res)
    show ?thesis
    proof (cases e)
      case None
      with assms \<open>body = Some a\<close> Some res capture_read_ok [of w a B' r' gz E]
      show ?thesis by auto
    next
      case (Some err')
      with assms \<open>body = Some a\<close> \<open>ReadAll (heap w a) = Some res\<close> res
        capture_read_fails [of w a B' err' r' gz E]
      show ?thesis by simp
    qed
  qed
qed

text \<open>
  C2. With the declaration \<^verbatim>\<open>gzip\<close> and a body whose read yields \<open>B\<close>: when \<open>B\<close> is valid
  gzip data (\<^verbatim>\<open>gzip.NewReader\<close> opens it and its read ends with end of file) the decoded
  bytes are what the gzip reader delivers, the decompression of \<open>B\<close>; when opening fails,
  or the read of the gzip reader ends with an error, the decoded bytes are \<open>B\<close> itself. In
  every case the function returns a nil error.
\<close>

theorem gzip_decoded_or_fallback:
  assumes "ReadAll (heap w a) = Some (B, None, r')"
  shows "\<exists>restore w1.
           readAndMaybeDecompressBody gz (Some a) ''gzip'' w =
             Returns ((Some B,
                       Some (case gz B of
                               Inl e \<Rightarrow> B
                             | Inr g \<Rightarrow> if fin g = EOF then concat (out g) else B),
                       Some restore, None), w1)"
  using capture_read_ok [OF assms, of gz "''gzip''"] by simp

theorem gzip_decoded_or_fallback_witness:
  "(\<exists>restore w1.
      readAndMaybeDecompressBody gzip_example (Some 0) ''gzip'' (world_with (Incoming [hi_gzip] (Ends EOF))) =
        Returns ((Some hi_gzip, Some [0x68, 0x69], Some restore, None), w1)) \<and>
   (\<exists>restore w1.
      readAndMaybeDecompressBody gzip_example (Some 0) ''gzip'' (world_with (Incoming [hi_gzip_bad_sum] (Ends EOF))) =
        Returns ((Some hi_gzip_bad_sum, Some hi_gzip_bad_sum, Some restore, None), w1)) \<and>
   (\<exists>restore w1.
      readAndMaybeDecompressBody gzip_example (Some 0) ''gzip'' (world_with (Incoming [[0x68, 0x69]] (Ends EOF))) =
        Returns ((Some [0x68, 0x69], Some [0x68, 0x69], Some restore, None), w1))"
proof -
  have h1: "ReadAll (heap (world_with (Incoming [hi_gzip] (Ends EOF))) 0) =
      Some (hi_gzip, None, Incoming [] (Ends EOF))"
    by (simp add: world_with_def ReadAll_Incoming)
  have h2: "ReadAll (heap (world_with (Incoming [hi_gzip_bad_sum] (Ends EOF))) 0) =
      Some (hi_gzip_bad_sum, None, Incoming [] (Ends EOF))"
    by (simp add: world_with_def ReadAll_Incoming)
  have h3: "ReadAll (heap (world_with (Incoming [[0x68, 0x69]] (Ends EOF))) 0) =
      Some ([0x68, 0x69], None, Incoming [] (Ends EOF))"
    by (simp add: world_with_def ReadAll_Incoming)
  have g1: "gzip_example hi_gzip = Inr (GzipReader [[0x68, 0x69]] EOF)"
    by (simp add: gzip_example_def)
  have g2: "gzip_example hi_gzip_bad_sum = Inr (GzipReader [[0x68, 0x69]] (Err ''gzip: invalid checksum''))"
    by (simp add: gzip_example_def hi_gzip_def hi_gzip_bad_sum_def)
  have g3: "gzip_example [0x68, 0x69] = Inl (Err ''gzip: invalid header'')"
    by (simp add: gzip_example_def hi_gzip_def hi_gzip_bad_sum_def)
  show ?thesis
    using gzip_decoded_or_fallback [OF h1, of gzip_example]
      gzip_decoded_or_fallback [OF h2, of gzip_example]
      gzip_decoded_or_fallback [OF h3, of gzip_example]
    by (simp add: g1 g2 g3)
qed

text \<open>
  C3. With any declaration other than \<^verbatim>\<open>gzip\<close>, the empty one included, the decoded bytes
  are the raw bytes \<open>B\<close>, and no gzip reader is opened.
\<close>

theorem non_gzip_decoded_is_raw:
  assumes "E \<noteq> ''gzip''" and "ReadAll (heap w a) = Some (B, None, r')"
  shows "\<exists>w1. readAndMaybeDecompressBody gz (Some a) E w =
                Returns ((Some B, Some B, Some (restore_closure B), None), w1) \<and>
              gzip_opens w1 = gzip_opens w"
  using capture_read_ok [OF assms(2), of gz E] assms(1) by simp

theorem non_gzip_decoded_is_raw_witness:
  "[] \<noteq> ''gzip'' \<and>
   ReadAll (heap (world_with (Incoming [hi_gzip] (Ends EOF))) 0) = Some (hi_gzip, None, Incoming [] (Ends EOF)) \<and>
   (\<exists>w1. readAndMaybeDecompressBody gzip_example (Some 0) [] (world_with (Incoming [hi_gzip] (Ends EOF))) =
           Returns ((Some hi_gzip, Some hi_gzip, Some (restore_closure hi_gzip), None), w1) \<and>
         gzip_opens w1 = gzip_opens (world_with (Incoming [hi_gzip] (Ends EOF))))"
proof -
  have e: "[] \<noteq> ''gzip''" by simp
  have h: "ReadAll (heap (world_with (Incoming [hi_gzip] (Ends EOF))) 0) =
      Some (hi_gzip, None, Incoming [] (Ends EOF))"
    by (simp add: world_with_def ReadAll_Incoming)
  from non_gzip_decoded_is_raw [OF e h, of gzip_example] e h show ?thesis by blast
qed

text \<open>
  C4. When the read of the body comes to an end, the error the function returns is the
  error of that read, so it returns an error exactly when the initial read fails, whatever
  the encoding is and whatever gzip does. With an error the raw bytes, the decoded bytes
  and the restore closure are all nil; without one the raw bytes are those read, and none
  of the three is nil.
\<close>

theorem error_iff_read_fails:
  assumes "ReadAll (heap w a) = Some (B, err, r')"
  shows "\<exists>raw decoded restore w1.
           readAndMaybeDecompressBody gz (Some a) E w = Returns ((raw, decoded, restore, err), w1) \<and>
           (if err = None then raw = Some B \<and> decoded \<noteq> None \<and> restore \<noteq> None
            else raw = None \<and> decoded = None \<and> restore = None)"
proof (cases err)
  case None
  with assms capture_read_ok [of w a B r' gz E] show ?thesis by simp
next
  case (Some e)
  with assms capture_read_fails [of w a B e r' gz E] show ?thesis by simp
qed

theorem error_iff_read_fails_witness:
  "(\<exists>w1. readAndMaybeDecompressBody gzip_example (Some 0) ''gzip''
          (world_with (Incoming [take 10 hi_gzip] (Ends (Err ''connection reset'')))) =
        Returns ((None, None, None, Some (Err ''connection reset'')), w1)) \<and>
   (\<exists>decoded restore w1. readAndMaybeDecompressBody gzip_example (Some 0) ''gzip''
          (world_with (Incoming [hi_gzip_bad_sum] (Ends EOF))) =
        Returns ((Some hi_gzip_bad_sum, Some decoded, Some restore, None), w1))"
proof -
  have h1: "ReadAll (heap (world_with (Incoming [take 10 hi_gzip] (Ends (Err ''connection reset'')))) 0) =
      Some (take 10 hi_gzip, Some (Err ''connection reset''), Incoming [] (Ends (Err ''connection reset'')))"
    by (simp add: world_with_def ReadAll_Incoming)
  have h2: "ReadAll (heap (world_with (Incoming [hi_gzip_bad_sum] (Ends EOF))) 0) =
      Some (hi_gzip_bad_sum, None, Incoming [] (Ends EOF))"
    by (simp add: world_with_def ReadAll_Incoming)
  show ?thesis
    using error_iff_read_fails [OF h1, of gzip_example "''gzip''"]
      error_iff_read_fails [OF h2, of gzip_example "''gzip''"]
    by auto
qed

text \<open>
  C5. The restore closure of a successful capture can be called in any state of the store
  and any number of times. Each call allocates a stream at a fresh address, positioned at
  the start of the raw bytes \<open>B\<close>, and touches no other stream; of two streams it has
  returned, each yields exactly \<open>B\<close> when read to its end, and reading either leaves the
  other as it was.
\<close>

theorem restore_is_repeatable:
  assumes "readAndMaybeDecompressBody gz body E w = Returns ((Some B, decoded, Some restore, err), w1)"
  shows "\<forall>w2. case restore w2 of (b1, w3) \<Rightarrow> case restore w3 of (b2, w4) \<Rightarrow>
           b1 = allocated w2 \<and> b2 = allocated w3 \<and> b1 \<noteq> b2 \<and>
           heap w3 = (heap w2)(b1 := NopCloser (bytes_NewReader B)) \<and>
           heap w4 = (heap w3)(b2 := NopCloser (bytes_NewReader B)) \<and>
           (\<exists>w5. io_ReadAll (Some b1) w4 = Returns ((B, None), w5) \<and>
                 heap w5 b2 = heap w4 b2 \<and>
                 (\<exists>w6. io_ReadAll (Some b2) w5 = Returns ((B, None), w6) \<and>
                       heap w6 b1 = heap w5 b1))"
proof -
  have r: "restore = restore_closure B"
    using assms by (rule capture_restore_is_closure)
  show ?thesis
    unfolding r by (simp add: restore_closure_eq io_ReadAll_restored)
qed

theorem restore_is_repeatable_witness:
  "readAndMaybeDecompressBody gzip_example (Some 0) ''gzip'' (world_with (Incoming [hi_gzip] (Ends EOF))) =
     Returns ((Some hi_gzip, Some [0x68, 0x69], Some (restore_closure hi_gzip), None),
              (world_with (Incoming [hi_gzip] (Ends EOF)))
                \<lparr>heap := (heap (world_with (Incoming [hi_gzip] (Ends EOF))))
                            (0 := Close (Incoming [] (Ends EOF))),
                  gzip_opens := Suc (gzip_opens (world_with (Incoming [hi_gzip] (Ends EOF))))\<rparr>) \<and>
   (case restore_closure hi_gzip (world_with (Incoming [] (Ends EOF))) of (b1, w3) \<Rightarrow>
      case restore_closure hi_gzip w3 of (b2, w4) \<Rightarrow>
        b1 = 1 \<and> b2 = 2 \<and>
        (\<exists>w5. io_ReadAll (Some b1) w4 = Returns ((hi_gzip, None), w5) \<and>
              heap w5 b2 = NopCloser (bytes_NewReader hi_gzip) \<and>
              (\<exists>w6. io_ReadAll (Some b2) w5 = Returns ((hi_gzip, None), w6))))"
proof -
  have r: "ReadAll (heap (world_with (Incoming [hi_gzip] (Ends EOF))) 0) =
      Some (hi_gzip, None, Incoming [] (Ends EOF))"
    by (simp add: world_with_def ReadAll_Incoming)
  have g: "gzip_example hi_gzip = Inr (GzipReader [[0x68, 0x69]] EOF)"
    by (simp add: gzip_example_def)
  have h: "readAndMaybeDecompressBody gzip_example (Some 0) ''gzip'' (world_with (Incoming [hi_gzip] (Ends EOF))) =
     Returns ((Some hi_gzip, Some [0x68, 0x69], Some (restore_closure hi_gzip), None),
              (world_with (Incoming [hi_gzip] (Ends EOF)))
                \<lparr>heap := (heap (world_with (Incoming [hi_gzip] (Ends EOF))))
                            (0 := Close (Incoming [] (Ends EOF))),
                  gzip_opens := Suc (gzip_opens (world_with (Incoming [hi_gzip] (Ends EOF))))\<rparr>)"
    using capture_read_ok [OF r, of gzip_example "''gzip''"] by (simp add: g)
  have a: "allocated (world_with (Incoming [] (Ends EOF))) = 1"
    by (simp add: world_with_def)
  show ?thesis
    using h restore_is_repeatable [OF h, rule_format, of "world_with (Incoming [] (Ends EOF))"]
    by (auto simp: a restore_closure_eq split: prod.splits)
qed

subsection \<open>The dumps, case by case\<close>

lemma dumpHTTPRequest_nil:
  assumes "Body req = None"
  shows "dumpHTTPRequest D gz req w =
           Returns (req, w\<lparr>logged := logged w @
             [case D req of
                Inl err \<Rightarrow> Printf ''Error dumping request headers: %v'' (ArgErr err)
              | Inr headerDump \<Rightarrow> Printf ''----- REQUEST HEADERS-----\<newline>%s'' (ArgBytes headerDump)]\<rparr>)"
  using assms by (simp add: dumpHTTPRequest_def log_Printf_def split: sum.splits)

lemma dumpHTTPRequest_read_ok:
  assumes "Body req = Some a" and "ReadAll (heap w a) = Some (B, None, r')"
  shows "dumpHTTPRequest D gz req w =
           Returns (req\<lparr>Body := Some (allocated w)\<rparr>,
             w\<lparr>heap := (heap w)(a := Close r', allocated w := NopCloser (bytes_NewReader B)),
               allocated := Suc (allocated w),
               logged := logged w @
                 [case D req of
                    Inl err \<Rightarrow> Printf ''Error dumping request headers: %v'' (ArgErr err)
                  | Inr headerDump \<Rightarrow> Printf ''----- REQUEST HEADERS-----\<newline>%s'' (ArgBytes headerDump),
                  Printf ''----- REQUEST BODY -----\<newline>%s''
                    (ArgBytes (if Header_Get (Header req) ''Content-Encoding'' = ''gzip'' then
                                 (case gz B of Inl e \<Rightarrow> B | Inr g \<Rightarrow> if fin g = EOF then concat (out g) else B)
                               else B))],
               gzip_opens := (if Header_Get (Header req) ''Content-Encoding'' = ''gzip''
                              then Suc (gzip_opens w) else gzip_opens w)\<rparr>)"
proof -
  let ?w1 = "case D req of
               Inl err \<Rightarrow> log_Printf ''Error dumping request headers: %v'' (ArgErr err) w
             | Inr headerDump \<Rightarrow> log_Printf ''----- REQUEST HEADERS-----\<newline>%s'' (ArgBytes headerDump) w"
  have h: "ReadAll (heap ?w1 a) = Some (B, None, r')"
    using assms(2) by (simp add: log_Printf_def split: sum.splits)
  show ?thesis
    using assms(1) capture_read_ok [OF h, of gz "Header_Get (Header req) ''Content-Encoding''"]
    by (simp add: dumpHTTPRequest_def Let_def and_then_def restore_closure_eq log_Printf_def
        split: sum.splits)
qed

lemma dumpHTTPRequest_read_fails:
  assumes "Body req = Some a" and "ReadAll (heap w a) = Some (B, Some e, r')"
  shows "dumpHTTPRequest D gz req w =
           Returns (req,
             w\<lparr>heap := (heap w)(a := Close r'),
               logged := logged w @
                 [case D req of
                    Inl err \<Rightarrow> Printf ''Error dumping request headers: %v'' (ArgErr err)
                  | Inr headerDump \<Rightarrow> Printf ''----- REQUEST HEADERS-----\<newline>%s'' (ArgBytes headerDump),
                  Printf ''Error reading request body: %v'' (ArgErr e)]\<rparr>)"
proof -
  let ?w1 = "case D req of
               Inl err \<Rightarrow> log_Printf ''Error dumping request headers: %v'' (ArgErr err) w
             | Inr headerDump \<Rightarrow> log_Printf ''----- REQUEST HEADERS-----\<newline>%s'' (ArgBytes headerDump) w"
  have h: "ReadAll (heap ?w1 a) = Some (B, Some e, r')"
    using assms(2) by (simp add: log_Printf_def split: sum.splits)
  show ?thesis
    using assms(1) capture_read_fails [OF h, of gz "Header_Get (Header req) ''Content-Encoding''"]
    by (simp add: dumpHTTPRequest_def Let_def and_then_def log_Printf_def split: sum.splits)
qed

lemma dumpHTTPRequest_blocks:
  assumes "Body req = Some a" and "ReadAll (heap w a) = None"
  shows "dumpHTTPRequest D gz req w = Blocks"
proof -
  let ?w1 = "case D req of
               Inl err \<Rightarrow> log_Printf ''Error dumping request headers: %v'' (ArgErr err) w
             | Inr headerDump \<Rightarrow> log_Printf ''----- REQUEST HEADERS-----\<newline>%s'' (ArgBytes headerDump) w"
  have h: "ReadAll (heap ?w1 a) = None"
    using assms(2) by (simp add: log_Printf_def split: sum.splits)
  show ?thesis
    using assms(1) capture_read_blocks [OF h, of gz "Header_Get (Header req) ''Content-Encoding''"]
    by (simp add: dumpHTTPRequest_def Let_def and_then_def)
qed

lemma dumpHTTPResponse_read_ok:
  assumes "Body resp = Some a" and "ReadAll (heap w a) = Some (B, None, r')"
  shows "dumpHTTPResponse D gz resp w =
           Returns (resp\<lparr>Body := Some (allocated w)\<rparr>,
             w\<lparr>heap := (heap w)(a := Close r', allocated w := NopCloser (bytes_NewReader B)),
               allocated := Suc (allocated w),
               logged := logged w @
                 [case D resp of
                    Inl err \<Rightarrow> Printf ''Error dumping response headers: %v'' (ArgErr err)
                  | Inr headerDump \<Rightarrow> Printf ''----- RESPONSE HEADERS-----\<newline>%s'' (ArgBytes headerDump),
                  Printf ''----- RESPONSE BODY -----\<newline>%s''
                    (ArgBytes (if Header_Get (Header resp) ''Content-Encoding'' = ''gzip'' then
                                 (case gz B of Inl e \<Rightarrow> B | Inr g \<Rightarrow> if fin g = EOF then concat (out g) else B)
                               else B))],
               gzip_opens := (if Header_Get (Header resp) ''Content-Encoding'' = ''gzip''
                              then Suc (gzip_opens w) else gzip_opens w)\<rparr>)"
proof -
  let ?w1 = "case D resp of
               Inl err \<Rightarrow> log_Printf ''Error dumping response headers: %v'' (ArgErr err) w
             | Inr headerDump \<Rightarrow> log_Printf ''----- RESPONSE HEADERS-----\<newline>%s'' (ArgBytes headerDump) w"
  have h: "ReadAll (heap ?w1 a) = Some (B, None, r')"
    using assms(2) by (simp add: log_Printf_def split: sum.splits)
  show ?thesis
    using assms(1) capture_read_ok [OF h, of gz "Header_Get (Header resp) ''Content-Encoding''"]
    by (simp add: dumpHTTPResponse_def Let_def and_then_def restore_closure_eq log_Printf_def
        split: sum.splits)
qed

lemma dumpHTTPResponse_read_fails:
  assumes "Body resp = Some a" and "ReadAll (heap w a) = Some (B, Some e, r')"
  shows "dumpHTTPResponse D gz resp w =
           Returns (resp,
             w\<lparr>heap := (heap w)(a := Close r'),
               logged := logged w @
                 [case D resp of
                    Inl err \<Rightarrow> Printf ''Error dumping response headers: %v'' (ArgErr err)
                  | Inr headerDump \<Rightarrow> Printf ''----- RESPONSE HEADERS-----\<newline>%s'' (ArgBytes headerDump),
                  Printf ''Error reading response body: %v'' (ArgErr e)]\<rparr>)"
proof -
  let ?w1 = "case D resp of
               Inl err \<Rightarrow> log_Printf ''Error dumping response headers: %v'' (ArgErr err) w
             | Inr headerDump \<Rightarrow> log_Printf ''----- RESPONSE HEADERS-----\<newline>%s'' (ArgBytes headerDump) w"
  have h: "ReadAll (heap ?w1 a) = Some (B, Some e, r')"
    using assms(2) by (simp add: log_Printf_def split: sum.splits)
  show ?thesis
    using assms(1) capture_read_fails [OF h, of gz "Header_Get (Header resp) ''Content-Encoding''"]
    by (simp add: dumpHTTPResponse_def Let_def and_then_def log_Printf_def split: sum.splits)
qed

lemma dumpHTTPResponse_blocks:
  assumes "Body resp = Some a" and "ReadAll (heap w a) = None"
  shows "dumpHTTPResponse D gz resp w = Blocks"
proof -
  let ?w1 = "case D resp of
               Inl err \<Rightarrow> log_Printf ''Error dumping response headers: %v'' (ArgErr err) w
             | Inr headerDump \<Rightarrow> log_Printf ''----- RESPONSE HEADERS-----\<newline>%s'' (ArgBytes headerDump) w"
  have h: "ReadAll (heap ?w1 a) = None"
    using assms(2) by (simp add: log_Printf_def split: sum.splits)
  show ?thesis
    using assms(1) capture_read_blocks [OF h, of gz "Header_Get (Header resp) ''Content-Encoding''"]
    by (simp add: dumpHTTPResponse_def Let_def and_then_def)
qed

lemma dumpHTTPResponse_nil:
  assumes "Body resp = None"
  shows "dumpHTTPResponse D gz resp w = Panics"
  using assms by (simp add: dumpHTTPResponse_def Let_def and_then_def capture_nil)

lemma ModifyResponse_eq:
  "ModifyResponse D gz resp w =
     (case dumpHTTPResponse D gz resp w of
        Returns (resp', w') \<Rightarrow> Returns (None, resp', w')
      | Panics \<Rightarrow> Panics
      | Blocks \<Rightarrow> Blocks)"
  by (simp add: ModifyResponse_def and_then_def split: outcome.splits)

subsection \<open>What the dumps guarantee\<close>

text \<open>
  C6. For a request whose body is nil, \<^verbatim>\<open>dumpHTTPRequest\<close> returns the request as it was
  and changes nothing but the log, which gains exactly one line: the header block (or,
  when the header cannot be rendered, the line that says so). No body block is logged, and
  no stream is read, closed or allocated.
\<close>

theorem nil_body_request_untouched:
  assumes "Body req = None"
  shows "dumpHTTPRequest DumpRequestOut gz req w =
           Returns (req, w\<lparr>logged := logged w @
             [case DumpRequestOut req of
                Inl err \<Rightarrow> Printf ''Error dumping request headers: %v'' (ArgErr err)
              | Inr headerDump \<Rightarrow> Printf ''----- REQUEST HEADERS-----\<newline>%s'' (ArgBytes headerDump)]\<rparr>)"
  using assms by (rule dumpHTTPRequest_nil)

theorem nil_body_request_untouched_witness:
  "Body (example_request None []) = None \<and>
   dumpHTTPRequest (\<lambda>r. Inr [0x47, 0x45, 0x54]) gzip_example (example_request None [])
       (world_with (Incoming [hi_gzip] (Ends EOF))) =
     Returns (example_request None [],
       (world_with (Incoming [hi_gzip] (Ends EOF)))
         \<lparr>logged := [Printf ''----- REQUEST HEADERS-----\<newline>%s'' (ArgBytes [0x47, 0x45, 0x54])]\<rparr>)"
proof -
  have h: "Body (example_request None []) = None"
    by (simp add: example_request_def)
  show ?thesis
    using h nil_body_request_untouched [OF h, of "\<lambda>r. Inr [0x47, 0x45, 0x54]" gzip_example
        "world_with (Incoming [hi_gzip] (Ends EOF))"]
    by (simp add: world_with_def)
qed

text \<open>
  C7, as amended. For every request and every response the proxy hands to the dumps (the
  response comes from \<^verbatim>\<open>http.DefaultTransport\<close>, lines 107 to 111, so its body is never nil):
  whenever the read of the body comes to an end, with end of file or with an error, the
  dump returns normally, whatever the header rendering, the body read and gzip do, and the
  response hook returns a nil error. As the claim is written, without the condition on the
  read, it fails: the program has no timeout, and a body that never ends keeps the dump
  from returning (the counterexample below).
\<close>

theorem dumps_never_fail:
  assumes "Body req = None \<or> (\<exists>a. Body req = Some a \<and> ReadAll (heap w a) \<noteq> None)"
    and "\<exists>a. Body resp = Some a \<and> ReadAll (heap w' a) \<noteq> None"
  shows "(\<exists>req' w1. dumpHTTPRequest DumpRequestOut gz req w = Returns (req', w1)) \<and>
         (\<exists>resp' w1. dumpHTTPResponse DumpResponse gz resp w' = Returns (resp', w1) \<and>
                      ModifyResponse DumpResponse gz resp w' = Returns (None, resp', w1))"
proof
  show "\<exists>req' w1. dumpHTTPRequest DumpRequestOut gz req w = Returns (req', w1)"
  proof (cases "Body req")
    case None
    then show ?thesis by (simp add: dumpHTTPRequest_nil)
  next
    case (Some a)
    with assms(1) obtain B err r' where r: "ReadAll (heap w a) = Some (B, err, r')"
      by auto
    show ?thesis
    proof (cases err)
      case None
      with Some r show ?thesis by (simp add: dumpHTTPRequest_read_ok)
    next
      case (Some e)
      with \<open>Body req = Some a\<close> r show ?thesis by (simp add: dumpHTTPRequest_read_fails)
    qed
  qed
next
  from assms(2) obtain a B err r' where b: "Body resp = Some a"
    and r: "ReadAll (heap w' a) = Some (B, err, r')"
    by auto
  show "\<exists>resp' w1. dumpHTTPResponse DumpResponse gz resp w' = Returns (resp', w1) \<and>
                      ModifyResponse DumpResponse gz resp w' = Returns (None, resp', w1)"
  proof (cases err)
    case None
    with b r show ?thesis by (simp add: ModifyResponse_eq dumpHTTPResponse_read_ok)
  next
    case (Some e)
    with b r show ?thesis by (simp add: ModifyResponse_eq dumpHTTPResponse_read_fails)
  qed
qed

theorem dumps_never_fail_witness:
  "(\<exists>req' w1. dumpHTTPRequest (\<lambda>r. Inl (Err ''unsupported protocol scheme'')) gzip_example
        (example_request (Some 0) ''gzip'')
        (world_with (Incoming [take 10 hi_gzip] (Ends (Err ''connection reset'')))) = Returns (req', w1)) \<and>
   (\<exists>resp' w1. dumpHTTPResponse (\<lambda>r. Inl (Err ''malformed response'')) gzip_example
        (example_response (Some 0) ''gzip'') (world_with (Incoming [hi_gzip_bad_sum] (Ends EOF))) =
          Returns (resp', w1) \<and>
      ModifyResponse (\<lambda>r. Inl (Err ''malformed response'')) gzip_example
        (example_response (Some 0) ''gzip'') (world_with (Incoming [hi_gzip_bad_sum] (Ends EOF))) =
          Returns (None, resp', w1))"
proof -
  have q: "Body (example_request (Some 0) ''gzip'') = None \<or>
      (\<exists>a. Body (example_request (Some 0) ''gzip'') = Some a \<and>
           ReadAll (heap (world_with (Incoming [take 10 hi_gzip] (Ends (Err ''connection reset'')))) a) \<noteq> None)"
    by (simp add: example_request_def world_with_def ReadAll_Incoming)
  have p: "\<exists>a. Body (example_response (Some 0) ''gzip'') = Some a \<and>
      ReadAll (heap (world_with (Incoming [hi_gzip_bad_sum] (Ends EOF))) a) \<noteq> None"
    by (simp add: example_response_def world_with_def ReadAll_Incoming)
  show ?thesis
    by (rule dumps_never_fail [OF q p])
qed

text \<open>
  The counterexample to C7 as it is written: a response with status 200 whose headers
  announce 22 bytes and whose body delivers one byte, after which the upstream sends
  nothing more and keeps the connection open. The header block is rendered and logged;
  then \<^verbatim>\<open>io.ReadAll\<close> (line 51 calls line 17) waits in \<^verbatim>\<open>Read\<close> for ever, and neither
  \<^verbatim>\<open>dumpHTTPResponse\<close> nor the hook returns.
\<close>

theorem dumps_never_fail_counterexample:
  "dumpHTTPResponse (\<lambda>r. Inr [0x48, 0x54, 0x54, 0x50]) gzip_example (example_response (Some 0) [])
       (world_with (Incoming [[0x6F]] Stalls)) = Blocks \<and>
   ModifyResponse (\<lambda>r. Inr [0x48, 0x54, 0x54, 0x50]) gzip_example (example_response (Some 0) [])
       (world_with (Incoming [[0x6F]] Stalls)) = Blocks"
proof -
  have b: "Body (example_response (Some 0) []) = Some 0"
    by (simp add: example_response_def)
  have r: "ReadAll (heap (world_with (Incoming [[0x6F]] Stalls)) 0) = None"
    by (simp add: world_with_def ReadAll_Incoming)
  show ?thesis
    by (simp add: ModifyResponse_eq dumpHTTPResponse_blocks [OF b r])
qed

text \<open>
  C8. When the rendering of the header fails, for a request as for a response, the dump
  logs the failure and goes on to the body: with a body whose read yields \<open>B\<close>, the log
  gains the failure line and then the body block, and the message leaves with a fresh
  stream as its body, whose full read yields \<open>B\<close>.
\<close>

theorem header_failure_keeps_body_handling:
  assumes "DumpRequestOut req = Inl e" and "Body req = Some a"
    and "ReadAll (heap w a) = Some (B, None, r')"
    and "DumpResponse resp = Inl e'" and "Body resp = Some a'"
    and "ReadAll (heap w' a') = Some (B', None, r'')"
  shows "(\<exists>decoded w1.
            dumpHTTPRequest DumpRequestOut gz req w = Returns (req\<lparr>Body := Some (allocated w)\<rparr>, w1) \<and>
            logged w1 = logged w @
              [Printf ''Error dumping request headers: %v'' (ArgErr e),
               Printf ''----- REQUEST BODY -----\<newline>%s'' (ArgBytes decoded)] \<and>
            heap w1 (allocated w) = NopCloser (bytes_NewReader B) \<and>
            ReadAll (heap w1 (allocated w)) = Some (B, None, NopCloser (BytesReader B (length B)))) \<and>
         (\<exists>decoded w1.
            dumpHTTPResponse DumpResponse gz resp w' = Returns (resp\<lparr>Body := Some (allocated w')\<rparr>, w1) \<and>
            logged w1 = logged w' @
              [Printf ''Error dumping response headers: %v'' (ArgErr e'),
               Printf ''----- RESPONSE BODY -----\<newline>%s'' (ArgBytes decoded)] \<and>
            heap w1 (allocated w') = NopCloser (bytes_NewReader B') \<and>
            ReadAll (heap w1 (allocated w')) = Some (B', None, NopCloser (BytesReader B' (length B'))))"
  using dumpHTTPRequest_read_ok [OF assms(2,3), of DumpRequestOut gz]
    dumpHTTPResponse_read_ok [OF assms(5,6), of DumpResponse gz]
  by (simp add: assms(1,4) ReadAll_restored)

theorem header_failure_keeps_body_handling_witness:
  "(\<exists>decoded w1.
      dumpHTTPRequest (\<lambda>r. Inl (Err ''unsupported protocol scheme'')) gzip_example
          (example_request (Some 0) ''gzip'') (world_with (Incoming [hi_gzip] (Ends EOF))) =
        Returns ((example_request (Some 0) ''gzip'')\<lparr>Body := Some 1\<rparr>, w1) \<and>
      logged w1 =
        [Printf ''Error dumping request headers: %v'' (ArgErr (Err ''unsupported protocol scheme'')),
         Printf ''----- REQUEST BODY -----\<newline>%s'' (ArgBytes decoded)] \<and>
      ReadAll (heap w1 1) = Some (hi_gzip, None, NopCloser (BytesReader hi_gzip (length hi_gzip)))) \<and>
   (\<exists>decoded w1.
      dumpHTTPResponse (\<lambda>r. Inl (Err ''malformed response'')) gzip_example
          (example_response (Some 0) []) (world_with (Incoming [[0x6F], [0x6B]] (Ends EOF))) =
        Returns ((example_response (Some 0) [])\<lparr>Body := Some 1\<rparr>, w1) \<and>
      logged w1 =
        [Printf ''Error dumping response headers: %v'' (ArgErr (Err ''malformed response'')),
         Printf ''----- RESPONSE BODY -----\<newline>%s'' (ArgBytes decoded)] \<and>
      ReadAll (heap w1 1) = Some ([0x6F, 0x6B], None, NopCloser (BytesReader [0x6F, 0x6B] (length [0x6F, 0x6B :: byte]))))"
proof -
  have q2: "Body (example_request (Some 0) ''gzip'') = Some 0"
    by (simp add: example_request_def)
  have q3: "ReadAll (heap (world_with (Incoming [hi_gzip] (Ends EOF))) 0) =
      Some (hi_gzip, None, Incoming [] (Ends EOF))"
    by (simp add: world_with_def ReadAll_Incoming)
  have p2: "Body (example_response (Some 0) []) = Some 0"
    by (simp add: example_response_def)
  have p3: "ReadAll (heap (world_with (Incoming [[0x6F], [0x6B]] (Ends EOF))) 0) =
      Some ([0x6F, 0x6B], None, Incoming [] (Ends EOF))"
    by (simp add: world_with_def ReadAll_Incoming)
  have a: "allocated (world_with r) = 1" "logged (world_with r) = []" for r
    by (simp_all add: world_with_def)
  show ?thesis
    using q2 q3 p2 p3
      header_failure_keeps_body_handling
        [where DumpRequestOut = "\<lambda>r. Inl (Err ''unsupported protocol scheme'')"
           and req = "example_request (Some 0) ''gzip''"
           and w = "world_with (Incoming [hi_gzip] (Ends EOF))"
           and DumpResponse = "\<lambda>r. Inl (Err ''malformed response'')"
           and resp = "example_response (Some 0) []"
           and w' = "world_with (Incoming [[0x6F], [0x6B]] (Ends EOF))"
           and gz = gzip_example
           and e = "Err ''unsupported protocol scheme''" and a = 0 and B = hi_gzip
           and r' = "Incoming [] (Ends EOF)"
           and e' = "Err ''malformed response''" and a' = 0 and B' = "[0x6F, 0x6B]"
           and r'' = "Incoming [] (Ends EOF)"]
    by (simp add: a) blast
qed

text \<open>
  C9. \<^verbatim>\<open>dumpHTTPResponse\<close> has no nil check and always reads the body: it panics exactly
  when the body of the response is nil, and it blocks exactly when the read of the body
  does. So any response panics once its body is set to nil, where \<^verbatim>\<open>dumpHTTPRequest\<close> on
  a request with a nil body returns with the request unchanged.
\<close>

theorem response_dump_has_no_nil_check:
  "(dumpHTTPResponse DumpResponse gz resp w = Panics) = (Body resp = None) \<and>
   (dumpHTTPResponse DumpResponse gz resp w = Blocks) =
     (\<exists>a. Body resp = Some a \<and> ReadAll (heap w a) = None) \<and>
   dumpHTTPResponse DumpResponse gz (resp\<lparr>Body := None\<rparr>) w = Panics \<and>
   (\<exists>w1. dumpHTTPRequest DumpRequestOut gz (req\<lparr>Body := None\<rparr>) w = Returns (req\<lparr>Body := None\<rparr>, w1))"
proof -
  have "(dumpHTTPResponse DumpResponse gz resp w = Panics) = (Body resp = None) \<and>
      (dumpHTTPResponse DumpResponse gz resp w = Blocks) =
        (\<exists>a. Body resp = Some a \<and> ReadAll (heap w a) = None)"
  proof (cases "Body resp")
    case None
    then show ?thesis by (simp add: dumpHTTPResponse_nil)
  next
    case (Some a)
    show ?thesis
    proof (cases "ReadAll (heap w a)")
      case None
      with Some show ?thesis by (simp add: dumpHTTPResponse_blocks)
    next
      case r: (Some res)
      obtain B err r' where res: "res = (B, err, r')" by (cases res)
      show ?thesis
      proof (cases err)
        case None
        with Some r res show ?thesis by (simp add: dumpHTTPResponse_read_ok)
      next
        case e: (Some e)
        with Some r res show ?thesis by (simp add: dumpHTTPResponse_read_fails)
      qed
    qed
  qed
  then show ?thesis
    by (simp add: dumpHTTPResponse_nil dumpHTTPRequest_nil)
qed

text \<open>
  C10. The test for gzip is equality of the declaration with the string \<^verbatim>\<open>gzip\<close>: a gzip
  reader is opened exactly when the declaration is that string, and for any other
  declaration the decoded bytes are the raw bytes. The witness takes \<^verbatim>\<open>GZIP\<close>,
  \<^verbatim>\<open>gzip, br\<close> and \<^verbatim>\<open> gzip\<close> on a body that is valid gzip data.
\<close>

theorem gzip_test_is_exact:
  assumes "ReadAll (heap w a) = Some (B, None, r')"
  shows "\<exists>decoded restore w1.
           readAndMaybeDecompressBody gz (Some a) E w =
             Returns ((Some B, Some decoded, Some restore, None), w1) \<and>
           (gzip_opens w1 = Suc (gzip_opens w)) = (E = ''gzip'') \<and>
           (gzip_opens w1 = gzip_opens w) = (E \<noteq> ''gzip'') \<and>
           decoded = (if E = ''gzip''
                      then (case gz B of Inl e \<Rightarrow> B | Inr g \<Rightarrow> if fin g = EOF then concat (out g) else B)
                      else B)"
  using capture_read_ok [OF assms, of gz E] by simp

theorem gzip_test_is_exact_witness:
  "(\<exists>restore w1.
      readAndMaybeDecompressBody gzip_example (Some 0) ''GZIP'' (world_with (Incoming [hi_gzip] (Ends EOF))) =
        Returns ((Some hi_gzip, Some hi_gzip, Some restore, None), w1) \<and> gzip_opens w1 = 0) \<and>
   (\<exists>restore w1.
      readAndMaybeDecompressBody gzip_example (Some 0) ''gzip, br'' (world_with (Incoming [hi_gzip] (Ends EOF))) =
        Returns ((Some hi_gzip, Some hi_gzip, Some restore, None), w1) \<and> gzip_opens w1 = 0) \<and>
   (\<exists>restore w1.
      readAndMaybeDecompressBody gzip_example (Some 0) '' gzip'' (world_with (Incoming [hi_gzip] (Ends EOF))) =
        Returns ((Some hi_gzip, Some hi_gzip, Some restore, None), w1) \<and> gzip_opens w1 = 0) \<and>
   (\<exists>restore w1.
      readAndMaybeDecompressBody gzip_example (Some 0) ''gzip'' (world_with (Incoming [hi_gzip] (Ends EOF))) =
        Returns ((Some hi_gzip, Some [0x68, 0x69], Some restore, None), w1) \<and> gzip_opens w1 = 1)"
proof -
  have h: "ReadAll (heap (world_with (Incoming [hi_gzip] (Ends EOF))) 0) =
      Some (hi_gzip, None, Incoming [] (Ends EOF))"
    by (simp add: world_with_def ReadAll_Incoming)
  have g: "gzip_example hi_gzip = Inr (GzipReader [[0x68, 0x69]] EOF)"
    by (simp add: gzip_example_def)
  have z: "gzip_opens (world_with (Incoming [hi_gzip] (Ends EOF))) = 0"
    by (simp add: world_with_def)
  show ?thesis
    using gzip_test_is_exact [OF h, of gzip_example "''GZIP''"]
      gzip_test_is_exact [OF h, of gzip_example "''gzip, br''"]
      gzip_test_is_exact [OF h, of gzip_example "'' gzip''"]
      gzip_test_is_exact [OF h, of gzip_example "''gzip''"]
    by (auto simp: g z)
qed

end
